theory Spec2Isabelle
  imports Complex_Main
begin

section \<open>Data model of price\_monitor.py\<close>

text \<open>
  The three dataclasses of \<^verbatim>\<open>src/price-monitor/price_monitor.py\<close> (lines 29--59) as
  records. The fields of all records of a theory live in one name space, so the fields
  \<^verbatim>\<open>url\<close>, \<^verbatim>\<open>name\<close> and \<^verbatim>\<open>timestamp\<close> carry a prefix in \<open>PriceRecord\<close> and \<open>PriceAlert\<close>.

  Python's \<^verbatim>\<open>float\<close> is modelled by \<open>real\<close>: comparisons and the branch structure are those
  of the source, the rounding of IEEE doubles is not modelled. \<^verbatim>\<open>Optional[float]\<close> is
  \<open>real option\<close>.
\<close>

record Product =
  url :: string
  name :: string
  price_selector :: string
  target_price :: "real option"
  alert_on_any_change :: bool
  alert_threshold_percent :: real

record PriceRecord =
  rec_url :: string
  rec_name :: string
  price :: real
  currency :: string
  timestamp :: string

record PriceAlert =
  product :: string
  alert_url :: string
  old_price :: real
  new_price :: real
  change_percent :: real
  alert_type :: string
  alert_timestamp :: string

text \<open>
  \<^verbatim>\<open>self.history: Dict[str, List[Dict]]\<close>: a dictionary from product keys to the list of
  stored records (each the \<^verbatim>\<open>asdict\<close> of a \<open>PriceRecord\<close>), oldest first.
\<close>

type_synonym history = "string \<rightharpoonup> PriceRecord list"

text \<open>
  The exceptions of the model. Python's \<^verbatim>\<open>/\<close> on floats raises \<^verbatim>\<open>ZeroDivisionError\<close> when
  the divisor is zero. \<open>PlaywrightError\<close> stands for whatever exception the browser automation
  raises where the source has no handler for it.
\<close>

datatype error = ZeroDivisionError | PlaywrightError

definition py_truediv :: "real \<Rightarrow> real \<Rightarrow> error + real" where
  "py_truediv a b = (if b = 0 then Inl ZeroDivisionError else Inr (a / b))"


section \<open>The alert rules: \_check\_alert\_conditions\<close>

text \<open>
  \<^verbatim>\<open>_get_product_key\<close> (line 96) is the first 12 hexadecimal digits of the MD5 digest of the
  URL. The digest comes from \<^verbatim>\<open>hashlib\<close>; every function below takes the key function as
  its parameter \<open>key_of\<close>, so nothing is assumed about it (in particular not that it is
  injective).

  \<open>records_at\<close> is \<^verbatim>\<open>self.history.get(key, [])\<close> (lines 187 and 260): the list stored under a
  key, the empty list for a key that is not in the dictionary. \<^verbatim>\<open>get_price_history\<close>
  (lines 257--260) is that list for the key of a URL.
\<close>

definition records_at :: "history \<Rightarrow> string \<Rightarrow> PriceRecord list" where
  "records_at h k = (case h k of None \<Rightarrow> [] | Some rs \<Rightarrow> rs)"

definition get_price_history :: "(string \<Rightarrow> string) \<Rightarrow> history \<Rightarrow> string \<Rightarrow> PriceRecord list" where
  "get_price_history key_of h u = records_at h (key_of u)"

text \<open>
  Lines 194--198:
  \<^verbatim>\<open>
    if last_price > 0:
        change_percent = ((current.price - last_price) / last_price) * 100
    else:
        change_percent = 0
  \<close>
\<close>

definition compute_change :: "real \<Rightarrow> real \<Rightarrow> error + real" where
  "compute_change last_price current_price =
     (if last_price > 0
      then (case py_truediv (current_price - last_price) last_price of
              Inl e \<Rightarrow> Inl e
            | Inr q \<Rightarrow> Inr (q * 100))
      else Inr 0)"

text \<open>
  Lines 200--213. The truth value of \<^verbatim>\<open>product.target_price\<close> is false for \<^verbatim>\<open>None\<close> and for
  \<^verbatim>\<open>0.0\<close>. The two \<^verbatim>\<open>elif\<close> branches belong to the outer \<^verbatim>\<open>if\<close>: they are reached only when
  the outer condition is false.
  \<^verbatim>\<open>
    alert_type = None
    if product.target_price and current.price <= product.target_price:
        if last_price > product.target_price:
            alert_type = "target_reached"
    elif change_percent <= -product.alert_threshold_percent:
        alert_type = "drop"
    elif product.alert_on_any_change and abs(change_percent) > 0.01:
        alert_type = "change"
  \<close>
\<close>

definition target_applies :: "Product \<Rightarrow> real \<Rightarrow> bool" where
  "target_applies p current_price =
     (case target_price p of
        None \<Rightarrow> False
      | Some t \<Rightarrow> t \<noteq> 0 \<and> current_price \<le> t)"

definition above_target :: "Product \<Rightarrow> real \<Rightarrow> bool" where
  "above_target p last_price =
     (case target_price p of None \<Rightarrow> False | Some t \<Rightarrow> last_price > t)"

definition select_alert_type :: "Product \<Rightarrow> real \<Rightarrow> real \<Rightarrow> real \<Rightarrow> string option" where
  "select_alert_type p last_price current_price change =
     (if target_applies p current_price
      then (if above_target p last_price then Some ''target_reached'' else None)
      else if change \<le> - alert_threshold_percent p then Some ''drop''
      else if alert_on_any_change p \<and> \<bar>change\<bar> > 1 / 100 then Some ''change''
      else None)"

text \<open>
  The whole of \<^verbatim>\<open>_check_alert_conditions\<close> (lines 180--226). \<^verbatim>\<open>if not history: return None\<close>
  covers both a missing key and an empty list; \<^verbatim>\<open>history[-1]\<close> is the last element of a
  list known to be non-empty; \<^verbatim>\<open>if alert_type:\<close> is false for \<^verbatim>\<open>None\<close> and for the empty
  string.
\<close>

definition make_alert :: "Product \<Rightarrow> PriceRecord \<Rightarrow> real \<Rightarrow> real \<Rightarrow> string \<Rightarrow> PriceAlert" where
  "make_alert p current last_price change kind =
     \<lparr> product = name p, alert_url = url p, old_price = last_price,
       new_price = price current, change_percent = change, alert_type = kind,
       alert_timestamp = timestamp current \<rparr>"

definition check_alert_conditions ::
  "(string \<Rightarrow> string) \<Rightarrow> history \<Rightarrow> Product \<Rightarrow> PriceRecord \<Rightarrow> error + PriceAlert option" where
  "check_alert_conditions key_of h p current =
     (case get_price_history key_of h (url p) of
        [] \<Rightarrow> Inr None
      | r # rs \<Rightarrow>
          (let last_price = price (last (r # rs)) in
           case compute_change last_price (price current) of
             Inl e \<Rightarrow> Inl e
           | Inr change \<Rightarrow>
               (case select_alert_type p last_price (price current) change of
                  None \<Rightarrow> Inr None
                | Some kind \<Rightarrow>
                    if kind = [] then Inr None
                    else Inr (Some (make_alert p current last_price change kind)))))"


section \<open>The price parser: \_parse\_price\<close>

text \<open>
  A Python \<^verbatim>\<open>str\<close> is a sequence of Unicode code points; the price text is modelled as the
  list of its code points, since the parser looks for characters beyond one byte.
  \<open>ustr_of\<close> writes an ASCII literal as such a list.
\<close>

type_synonym ustr = "nat list"

definition ustr_of :: "string \<Rightarrow> ustr" where
  "ustr_of s = map of_char s"

text \<open>
  \<^verbatim>\<open>text.strip()\<close> (line 158) removes leading and trailing white space, the characters for
  which \<^verbatim>\<open>str.isspace\<close> holds.
\<close>

definition is_space :: "nat \<Rightarrow> bool" where
  "is_space c =
     ((9 \<le> c \<and> c \<le> 13) \<or> (28 \<le> c \<and> c \<le> 32) \<or> c = 133 \<or> c = 160 \<or> c = 5760 \<or>
      (8192 \<le> c \<and> c \<le> 8202) \<or> c = 8232 \<or> c = 8233 \<or> c = 8239 \<or> c = 8287 \<or> c = 12288)"

definition strip :: "ustr \<Rightarrow> ustr" where
  "strip s = rev (dropWhile is_space (rev (dropWhile is_space s)))"

text \<open>Python's \<^verbatim>\<open>sub in text\<close> on strings: \<open>sub\<close> occurs as a contiguous run.\<close>

fun starts_with :: "ustr \<Rightarrow> ustr \<Rightarrow> bool" where
  "starts_with [] s = True"
| "starts_with (a # as) [] = False"
| "starts_with (a # as) (c # cs) = (a = c \<and> starts_with as cs)"

fun contains :: "ustr \<Rightarrow> ustr \<Rightarrow> bool" where
  "contains sub [] = starts_with sub []"
| "contains sub (c # cs) = (starts_with sub (c # cs) \<or> contains sub cs)"

text \<open>
  The three string literals of lines 162--166, code point by code point as they stand in
  the source file (read as UTF-8):
  \<^item> line 162: bytes C3 A2, E2 80 9A, C2 AC, the three code points U+00E2, U+201A, U+00AC;
  \<^item> line 164: bytes C3 82, C2 A3, the two code points U+00C2, U+00A3;
  \<^item> line 166: bytes C3 82, C2 A5, the two code points U+00C2, U+00A5.
  The euro sign itself is the single code point U+20AC (8364).
\<close>

definition eur_literal :: ustr where
  "eur_literal = [226, 8218, 172]"

definition gbp_literal :: ustr where
  "gbp_literal = [194, 163]"

definition jpy_literal :: ustr where
  "jpy_literal = [194, 165]"

definition euro_sign :: nat where
  "euro_sign = 8364"

definition detect_currency :: "ustr \<Rightarrow> string" where
  "detect_currency s =
     (if contains eur_literal s then ''EUR''
      else if contains gbp_literal s then ''GBP''
      else if contains jpy_literal s then ''JPY''
      else ''USD'')"

text \<open>
  In a \<^verbatim>\<open>str\<close> pattern \<^verbatim>\<open>\d\<close> matches every Unicode decimal digit, and \<^verbatim>\<open>float\<close> reads each
  of them by its decimal value. That table belongs to the Python runtime; the parser takes
  it as the parameter \<open>dec\<close> (code point to decimal value). \<open>ascii_decimal\<close> is its
  restriction to ASCII, with which every such table agrees below 128.
\<close>

definition ascii_decimal :: "nat \<Rightarrow> nat option" where
  "ascii_decimal c = (if 48 \<le> c \<and> c \<le> 57 then Some (c - 48) else None)"

definition is_digit :: "(nat \<Rightarrow> nat option) \<Rightarrow> nat \<Rightarrow> bool" where
  "is_digit dec c = (case dec c of None \<Rightarrow> False | Some d \<Rightarrow> True)"

definition digit_or_comma :: "(nat \<Rightarrow> nat option) \<Rightarrow> nat \<Rightarrow> bool" where
  "digit_or_comma dec c = (c = 44 \<or> is_digit dec c)"

definition not_digit_or_comma :: "(nat \<Rightarrow> nat option) \<Rightarrow> nat \<Rightarrow> bool" where
  "not_digit_or_comma dec c = (if digit_or_comma dec c then False else True)"

text \<open>\<^verbatim>\<open>s.replace(',', '')\<close>: every comma (code point 44) removed.\<close>

definition remove_commas :: "ustr \<Rightarrow> ustr" where
  "remove_commas s = filter (\<lambda>c. c \<noteq> 44) s"

text \<open>
  \<^verbatim>\<open>re.search(r'[\d,]+\.?\d*', s)\<close> (line 170). The search takes the leftmost position where
  the pattern matches, which is the first character of the class \<^verbatim>\<open>[\d,]\<close>; from there
  \<^verbatim>\<open>[\d,]+\<close> is greedy, \<^verbatim>\<open>\.?\<close> takes a full stop (code point 46) when one follows, and
  \<^verbatim>\<open>\d*\<close> is greedy again. Every later part may be empty, so the greedy choice never
  backtracks. The result is \<^verbatim>\<open>match.group()\<close>, or None when nothing matches.
\<close>

definition re_search :: "(nat \<Rightarrow> nat option) \<Rightarrow> ustr \<Rightarrow> ustr option" where
  "re_search dec s =
     (case dropWhile (not_digit_or_comma dec) s of
        [] \<Rightarrow> None
      | c # cs \<Rightarrow>
          (let run = takeWhile (digit_or_comma dec) (c # cs) in
           case dropWhile (digit_or_comma dec) (c # cs) of
             [] \<Rightarrow> Some run
           | d # ds \<Rightarrow>
               if d = 46 then Some (run @ [46] @ takeWhile (is_digit dec) ds)
               else Some run))"

text \<open>
  \<^verbatim>\<open>float(token)\<close> (line 173) on the strings the pattern can produce once their commas are
  removed: decimal digits with at most one full stop. Such a string is a float literal
  when it has a digit (\<^verbatim>\<open>"12"\<close>, \<^verbatim>\<open>"12."\<close>, \<^verbatim>\<open>"12.5"\<close>, \<^verbatim>\<open>".5"\<close>); otherwise \<^verbatim>\<open>float\<close> raises
  \<^verbatim>\<open>ValueError\<close>, here the value None. The value is the exact decimal value: the rounding
  of \<^verbatim>\<open>float\<close>, its overflow to infinity and its underflow to 0.0 are not modelled.
\<close>

definition digits_value :: "(nat \<Rightarrow> nat option) \<Rightarrow> ustr \<Rightarrow> nat" where
  "digits_value dec ds =
     foldl (\<lambda>acc c. acc * 10 + (case dec c of None \<Rightarrow> 0 | Some d \<Rightarrow> d)) 0 ds"

definition py_float :: "(nat \<Rightarrow> nat option) \<Rightarrow> ustr \<Rightarrow> real option" where
  "py_float dec tok =
     (let ip = takeWhile (\<lambda>c. c \<noteq> 46) tok;
          fp = (case dropWhile (\<lambda>c. c \<noteq> 46) tok of [] \<Rightarrow> [] | d # ds \<Rightarrow> ds)
      in if list_all (is_digit dec) ip \<and> list_all (is_digit dec) fp \<and> ip @ fp \<noteq> []
         then Some (real (digits_value dec ip) + real (digits_value dec fp) / 10 ^ length fp)
         else None)"

text \<open>
  \<^verbatim>\<open>_parse_price\<close> (lines 153--178): the pair (price or None, currency). A \<^verbatim>\<open>ValueError\<close> of
  \<^verbatim>\<open>float\<close> is caught (lines 175--176) and ends in the same \<^verbatim>\<open>return None, currency\<close> as a
  failed search.
\<close>

definition parse_price :: "(nat \<Rightarrow> nat option) \<Rightarrow> ustr \<Rightarrow> real option \<times> string" where
  "parse_price dec text0 =
     (let s = strip text0;
          cur = detect_currency s
      in case re_search dec (remove_commas s) of
           None \<Rightarrow> (None, cur)
         | Some tok \<Rightarrow>
             (case py_float dec (remove_commas tok) of
                Some v \<Rightarrow> (Some v, cur)
              | None \<Rightarrow> (None, cur)))"


section \<open>One observation: scrape\_price\<close>

text \<open>
  \<^verbatim>\<open>scrape_price\<close> (lines 111--151) drives a browser; what the browser does is an input of
  the model, one of three outcomes:
  \<^item> \<open>Raises\<close>: an exception leaves \<^verbatim>\<open>scrape_price\<close>. The calls of lines 113--126 (starting
    Playwright, launching the browser, the new context, the init script, the new page)
    stand before the \<^verbatim>\<open>try\<close>, and \<^verbatim>\<open>browser.close()\<close> of line 149 stands in the \<^verbatim>\<open>finally\<close>
    clause; an exception of any of them is not caught by line 146, whatever was read.
  \<^item> \<open>NoText\<close>: these calls succeed and the \<^verbatim>\<open>try\<close> block yields no text: an exception inside
    the block (time-out or network error of \<^verbatim>\<open>goto\<close>, and so on), which line 146 catches, no
    element for the selector (line 134), or an element without text. The function
    returns \<^verbatim>\<open>None\<close> (line 151).
  \<^item> \<open>Text s\<close>: these calls succeed and the element's text is \<open>s\<close>.
  The time stamp \<^verbatim>\<open>datetime.now().isoformat()\<close> is an input as well.

  \<^verbatim>\<open>if price:\<close> (line 138) is false for \<^verbatim>\<open>None\<close> and for \<^verbatim>\<open>0.0\<close>.
\<close>

datatype observation = Raises | NoText | Text ustr

definition scrape_price ::
  "(nat \<Rightarrow> nat option) \<Rightarrow> Product \<Rightarrow> observation \<Rightarrow> string \<Rightarrow> error + PriceRecord option" where
  "scrape_price dec p obs now =
     (case obs of
        Raises \<Rightarrow> Inl PlaywrightError
      | NoText \<Rightarrow> Inr None
      | Text price_text \<Rightarrow>
          (case parse_price dec price_text of
             (None, cur) \<Rightarrow> Inr None
           | (Some v, cur) \<Rightarrow>
               if v \<noteq> 0
               then Inr (Some \<lparr> rec_url = url p, rec_name = name p, price = v,
                                currency = cur, timestamp = now \<rparr>)
               else Inr None))"


section \<open>The monitoring cycle: check\_all\<close>

text \<open>
  Lines 244--249, the only place that writes the history:
  \<^verbatim>\<open>
    if key not in self.history:
        self.history[key] = []
    self.history[key].append(asdict(record))
    self.history[key] = self.history[key][-100:]
  \<close>
  \<^verbatim>\<open>xs[-100:]\<close> is the last 100 elements of \<^verbatim>\<open>xs\<close>, all of it when it has fewer. These
  lines do not look into the value they append, so \<open>append_capped\<close> is polymorphic in it.
  \<open>store_record\<close> is lines 242--249: the append under the key of the product's URL.
\<close>

definition last_100 :: "'a list \<Rightarrow> 'a list" where
  "last_100 xs = drop (length xs - 100) xs"

definition append_capped :: "('k \<rightharpoonup> 'a list) \<Rightarrow> 'k \<Rightarrow> 'a \<Rightarrow> ('k \<rightharpoonup> 'a list)" where
  "append_capped h k v =
     h(k \<mapsto> last_100 ((case h k of None \<Rightarrow> [] | Some xs \<Rightarrow> xs) @ [v]))"

definition store_record :: "(string \<Rightarrow> string) \<Rightarrow> history \<Rightarrow> Product \<Rightarrow> PriceRecord \<Rightarrow> history" where
  "store_record key_of h p r = append_capped h (key_of (url p)) r"

text \<open>
  The body of the loop of \<^verbatim>\<open>check_all\<close> (lines 232--252) for one product. The work item is
  the product with the outcome of the browser for it and the time of the reading. The
  state is the list \<^verbatim>\<open>alerts\<close> and the dictionary \<^verbatim>\<open>self.history\<close>. The result is the list of
  alerts or the exception that leaves the loop, together with the history: the history is
  a field of the object and keeps what was written to it when an exception ends the cycle,
  while the list of alerts is a local variable and is lost with the exception. Neither
  \<^verbatim>\<open>scrape_price\<close> (line 235) nor the alert check (line 238) is called under a handler. The
  pause of line 252 has no effect on the state.
\<close>

type_synonym work = "Product \<times> observation \<times> string"

type_synonym monitor_state = "PriceAlert list \<times> history"

type_synonym outcome = "(error + PriceAlert list) \<times> history"

definition check_product ::
  "(string \<Rightarrow> string) \<Rightarrow> (nat \<Rightarrow> nat option) \<Rightarrow> work \<Rightarrow> monitor_state \<Rightarrow> outcome" where
  "check_product key_of dec w st =
     (case w of (p, obs, now) \<Rightarrow>
      case st of (alerts, h) \<Rightarrow>
        (case scrape_price dec p obs now of
           Inl e \<Rightarrow> (Inl e, h)
         | Inr None \<Rightarrow> (Inr alerts, h)
         | Inr (Some record) \<Rightarrow>
             (case check_alert_conditions key_of h p record of
                Inl e \<Rightarrow> (Inl e, h)
              | Inr None \<Rightarrow> (Inr alerts, store_record key_of h p record)
              | Inr (Some alert) \<Rightarrow> (Inr (alerts @ [alert]), store_record key_of h p record))))"

fun check_all_from ::
  "(string \<Rightarrow> string) \<Rightarrow> (nat \<Rightarrow> nat option) \<Rightarrow> work list \<Rightarrow> monitor_state \<Rightarrow> outcome" where
  "check_all_from key_of dec [] (alerts, h) = (Inr alerts, h)"
| "check_all_from key_of dec (w # ws) (alerts, h) =
     (case check_product key_of dec w (alerts, h) of
        (Inl e, h') \<Rightarrow> (Inl e, h')
      | (Inr alerts', h') \<Rightarrow> check_all_from key_of dec ws (alerts', h'))"

text \<open>
  \<^verbatim>\<open>check_all\<close> (lines 228--255) starts with no alerts and returns the alerts (line 255) unless
  an exception ended the loop. Writing the history to its file (line 254) is not modelled.
\<close>

definition check_all ::
  "(string \<Rightarrow> string) \<Rightarrow> (nat \<Rightarrow> nat option) \<Rightarrow> work list \<Rightarrow> history \<Rightarrow> outcome" where
  "check_all key_of dec ws h = check_all_from key_of dec ws ([], h)"

text \<open>
  A run of appends for one product: the history after lines 242--249 have run for each
  record of \<open>rs\<close> in turn.
\<close>

definition store_records ::
  "(string \<Rightarrow> string) \<Rightarrow> Product \<Rightarrow> history \<Rightarrow> PriceRecord list \<Rightarrow> history" where
  "store_records key_of p h rs = foldl (\<lambda>h r. store_record key_of h p r) h rs"

text \<open>
  A work item whose observation does not raise.
\<close>

definition does_not_raise :: "work \<Rightarrow> bool" where
  "does_not_raise w = (case w of (p, obs, now) \<Rightarrow> (case obs of Raises \<Rightarrow> False | NoText \<Rightarrow> True | Text s \<Rightarrow> True))"


section \<open>Sample data\<close>

text \<open>
  The product of \<^verbatim>\<open>demo\<close> (lines 308--314) and variants of it, records for it, a stand-in
  for the key function, a run of 101 distinct records and a cycle of three observations,
  used where a statement is evaluated on concrete input.
\<close>

definition sample_product :: Product where
  "sample_product =
     \<lparr> url = ''https://www.amazon.com/dp/B0EXAMPLE'', name = ''Example Product'',
       price_selector = ''#priceblock_ourprice, .a-price-whole'', target_price = Some 25,
       alert_on_any_change = False, alert_threshold_percent = 5 \<rparr>"

definition no_target_product :: Product where
  "no_target_product = sample_product \<lparr> target_price := None \<rparr>"

definition crossed_product :: Product where
  "crossed_product = sample_product \<lparr> target_price := Some 50 \<rparr>"

definition zero_threshold_product :: Product where
  "zero_threshold_product = no_target_product \<lparr> alert_threshold_percent := 0 \<rparr>"

definition sample_record :: "real \<Rightarrow> string \<Rightarrow> PriceRecord" where
  "sample_record v now =
     \<lparr> rec_url = ''https://www.amazon.com/dp/B0EXAMPLE'', rec_name = ''Example Product'',
       price = v, currency = ''USD'', timestamp = now \<rparr>"

definition sample_key :: "string \<Rightarrow> string" where
  "sample_key u = take 12 u"

definition sample_run :: "PriceRecord list" where
  "sample_run = map (\<lambda>n. sample_record (real n) ''t'') [1..<102]"

definition sample_cycle :: "work list" where
  "sample_cycle =
     [(sample_product, Text (ustr_of ''$29.99''), ''t0''),
      (sample_product, Text (ustr_of ''Out of stock''), ''t1''),
      (sample_product, Text (ustr_of ''$24.99''), ''t2'')]"





section \<open>Properties of the alert rules\<close>

lemma compute_change_pos:
  "0 < a \<Longrightarrow> compute_change a b = Inr ((b - a) / a * 100)"
  by (simp add: compute_change_def py_truediv_def)

lemma check_alert_conditions_nonempty:
  assumes "get_price_history key_of h (url p) = rs" and "rs \<noteq> []"
  shows "check_alert_conditions key_of h p current =
           (case compute_change (price (last rs)) (price current) of
              Inl e \<Rightarrow> Inl e
            | Inr change \<Rightarrow>
                (case select_alert_type p (price (last rs)) (price current) change of
                   None \<Rightarrow> Inr None
                 | Some kind \<Rightarrow>
                     if kind = [] then Inr None
                     else Inr (Some (make_alert p current (price (last rs)) change kind))))"
proof -
  obtain r rs' where rs: "rs = r # rs'" using assms(2) by (cases rs) auto
  show ?thesis
    unfolding check_alert_conditions_def assms(1) rs by (simp add: Let_def del: last.simps)
qed

lemma check_alert_conditions_total:
  "\<exists>r. check_alert_conditions key_of h p current = Inr r"
  by (simp add: check_alert_conditions_def compute_change_def py_truediv_def Let_def
      split: list.splits option.splits sum.splits)

text \<open>
  What the nesting of lines 203--205 does in general: while a target is set (and is not 0)
  and both the prior and the current price are at or below it, no rule is evaluated and no
  alert is returned, whatever the change, the threshold and the any-change flag.
\<close>

lemma no_alert_while_below_target:
  assumes "target_price p = Some t" and "t \<noteq> 0"
    and "price current \<le> t" and "get_price_history key_of h (url p) = rs"
    and "rs \<noteq> []" and "price (last rs) \<le> t"
  shows "check_alert_conditions key_of h p current = Inr None"
proof -
  have sel: "select_alert_type p (price (last rs)) (price current) c = None" for c
    using assms(1,2,3,6) by (simp add: select_alert_type_def target_applies_def above_target_def)
  obtain c where c: "compute_change (price (last rs)) (price current) = Inr c"
    by (cases "0 < price (last rs)") (simp_all add: compute_change_def py_truediv_def)
  show ?thesis
    unfolding check_alert_conditions_nonempty [OF assms(4,5)] c sel by simp
qed

text \<open>
  C1. The claim: with a target price that was crossed before (prior price at or below the
  target), a change at or below minus the threshold yields an alert of kind drop. The code
  at the claim's own example (threshold 5, prior price 50, current price 45, target 50
  already reached): the outer condition of line 203 holds, the inner one of line 204 does
  not, and the \<^verbatim>\<open>elif\<close> branches of lines 208 and 212 are skipped, so no alert is returned.
  The same observation for the product without a target gives the drop alert with
  change $-10$.
\<close>

theorem drop_suppressed_below_target:
  "check_alert_conditions sample_key
      [sample_key (url crossed_product) \<mapsto> [sample_record 50 ''t0'']]
      crossed_product (sample_record 45 ''t1'') = Inr None \<and>
   check_alert_conditions sample_key
      [sample_key (url no_target_product) \<mapsto> [sample_record 50 ''t0'']]
      no_target_product (sample_record 45 ''t1'')
     = Inr (Some (make_alert no_target_product (sample_record 45 ''t1'') 50 (- 10) ''drop''))"
  by (simp add: crossed_product_def no_target_product_def sample_product_def sample_record_def
      get_price_history_def records_at_def check_alert_conditions_def compute_change_def
      py_truediv_def select_alert_type_def target_applies_def above_target_def make_alert_def)

text \<open>
  C6. For a product with target price 25.00, prior price 29.99 and current price 24.99,
  whatever its other rule fields, the result is an alert of kind target\_reached, and the
  alert carries the percent change $-50000/2999$, which is within 0.005 of $-16.67$.
\<close>

theorem target_reached_example:
  assumes "target_price p = Some 25"
    and "get_price_history key_of h (url p) = rs" and "rs \<noteq> []"
    and "price (last rs) = 2999 / 100" and "price current = 2499 / 100"
  shows "\<exists>a. check_alert_conditions key_of h p current = Inr (Some a) \<and>
           alert_type a = ''target_reached'' \<and>
           change_percent a = - (50000 / 2999) \<and>
           \<bar>change_percent a - (- 1667 / 100)\<bar> < 5 / 1000 \<and>
           old_price a = 2999 / 100 \<and> new_price a = 2499 / 100"
proof -
  have ch: "compute_change (2999 / 100) (2499 / 100) = Inr (- (50000 / 2999))"
    by (simp add: compute_change_pos)
  have sel: "select_alert_type p (2999 / 100) (2499 / 100) c = Some ''target_reached''" for c
    using assms(1) by (simp add: select_alert_type_def target_applies_def above_target_def)
  have "check_alert_conditions key_of h p current =
          Inr (Some (make_alert p current (2999 / 100) (- (50000 / 2999)) ''target_reached''))"
    unfolding check_alert_conditions_nonempty [OF assms(2,3)] assms(4,5) ch sel by simp
  then show ?thesis
    by (simp add: make_alert_def assms(5))
qed

theorem target_reached_example_witness:
  "\<exists>a. check_alert_conditions sample_key
          [sample_key (url sample_product) \<mapsto> [sample_record (2999 / 100) ''t0'']]
          sample_product (sample_record (2499 / 100) ''t1'') = Inr (Some a) \<and>
        alert_type a = ''target_reached'' \<and>
        change_percent a = - (50000 / 2999) \<and>
        \<bar>change_percent a - (- 1667 / 100)\<bar> < 5 / 1000 \<and>
        old_price a = 2999 / 100 \<and> new_price a = 2499 / 100"
  using target_reached_example [of sample_product sample_key
      "[sample_key (url sample_product) \<mapsto> [sample_record (2999 / 100) ''t0'']]"
      "[sample_record (2999 / 100) ''t0'']" "sample_record (2499 / 100) ''t1''"]
  by (simp add: sample_product_def sample_record_def get_price_history_def records_at_def)

text \<open>
  C7. When the prior price (the price of the last stored record) is not strictly positive,
  the change is 0 and no division takes place: the computation of the change returns 0,
  the alert check returns normally, and an alert it returns carries the change 0.
\<close>

theorem nonpositive_prior_change_zero:
  assumes "get_price_history key_of h (url p) = rs" and "rs \<noteq> []"
    and "price (last rs) \<le> 0"
  shows "compute_change (price (last rs)) (price current) = Inr 0 \<and>
         (\<exists>r. check_alert_conditions key_of h p current = Inr r \<and>
              (case r of
                 None \<Rightarrow> True
               | Some a \<Rightarrow> change_percent a = 0 \<and> old_price a = price (last rs)))"
proof -
  have ch: "compute_change (price (last rs)) c = Inr 0" for c
    using assms(3) by (simp add: compute_change_def)
  have "\<exists>r. check_alert_conditions key_of h p current = Inr r \<and>
          (case r of None \<Rightarrow> True
           | Some a \<Rightarrow> change_percent a = 0 \<and> old_price a = price (last rs))"
    unfolding check_alert_conditions_nonempty [OF assms(1,2)] ch
    by (cases "select_alert_type p (price (last rs)) (price current) 0")
       (simp_all add: make_alert_def)
  then show ?thesis using ch by simp
qed

theorem nonpositive_prior_change_zero_witness:
  "compute_change 0 10 = Inr 0 \<and>
   check_alert_conditions sample_key
      [sample_key (url zero_threshold_product) \<mapsto> [sample_record 0 ''t0'']]
      zero_threshold_product (sample_record 10 ''t1'')
     = Inr (Some (make_alert zero_threshold_product (sample_record 10 ''t1'') 0 0 ''drop''))"
  using nonpositive_prior_change_zero [of sample_key
      "[sample_key (url zero_threshold_product) \<mapsto> [sample_record 0 ''t0'']]"
      zero_threshold_product "[sample_record 0 ''t0'']" "sample_record 10 ''t1''"]
  by (simp add: zero_threshold_product_def no_target_product_def sample_product_def
      sample_record_def get_price_history_def records_at_def check_alert_conditions_def
      select_alert_type_def target_applies_def make_alert_def)


section \<open>Properties of the parser\<close>

lemmas parser_defs =
  parse_price_def ustr_of_def strip_def is_space_def detect_currency_def
  eur_literal_def gbp_literal_def jpy_literal_def euro_sign_def re_search_def remove_commas_def
  not_digit_or_comma_def digit_or_comma_def is_digit_def ascii_decimal_def py_float_def
  digits_value_def

lemmas ascii_defs = ustr_of_def is_digit_def ascii_decimal_def

lemma set_strip: "set (strip s) \<subseteq> set s"
proof
  fix c assume "c \<in> set (strip s)"
  then have "c \<in> set (dropWhile is_space (rev (dropWhile is_space s)))"
    by (simp add: strip_def)
  then have "c \<in> set (rev (dropWhile is_space s))" by (rule set_dropWhileD)
  then have "c \<in> set (dropWhile is_space s)" by simp
  then show "c \<in> set s" by (rule set_dropWhileD)
qed

lemma re_search_no_digit:
  assumes "\<forall>c \<in> set s. \<not> is_digit dec c"
  shows "re_search dec (remove_commas s) = None"
proof -
  have "\<forall>c \<in> set (remove_commas s). not_digit_or_comma dec c"
    using assms by (auto simp: remove_commas_def not_digit_or_comma_def digit_or_comma_def)
  then have dw: "dropWhile (not_digit_or_comma dec) (remove_commas s) = []"
    by (simp add: dropWhile_eq_Nil_conv)
  show ?thesis unfolding re_search_def dw by simp
qed

lemma parse_price_no_digit:
  assumes "\<forall>c \<in> set s. \<not> is_digit dec c"
  shows "parse_price dec s = (None, detect_currency (strip s))"
proof -
  have "\<forall>c \<in> set (strip s). \<not> is_digit dec c"
    using assms set_strip by blast
  then have "re_search dec (remove_commas (strip s)) = None"
    by (rule re_search_no_digit)
  then show ?thesis by (simp add: parse_price_def)
qed

lemma py_float_nonneg: "py_float dec tok = Some v \<Longrightarrow> 0 \<le> v"
  by (auto simp: py_float_def Let_def split: if_splits)

lemma parse_price_nonneg: "parse_price dec s = (Some v, cur) \<Longrightarrow> 0 \<le> v"
  by (auto simp: parse_price_def Let_def split: option.splits dest: py_float_nonneg)

lemma parse_out_of_stock:
  "parse_price ascii_decimal (ustr_of ''Out of stock'') = (None, ''USD'')"
  by (simp add: parser_defs)

text \<open>
  Each literal of lines 162--166 starts with the code point 226 or 194; a text without
  these two code points (any text of ASCII characters and currency symbols, for one) gets
  the default currency.
\<close>

lemma starts_with_hd: "starts_with (a # as) s \<Longrightarrow> a \<in> set s"
  by (cases s) simp_all

lemma contains_hd: "contains (a # as) s \<Longrightarrow> a \<in> set s"
  by (induction s) (auto dest: starts_with_hd)

lemma detect_currency_default:
  assumes "226 \<notin> set s" and "194 \<notin> set s"
  shows "detect_currency s = ''USD''"
  using assms contains_hd [of 226 "[8218, 172]" s] contains_hd [of 194 "[163]" s]
    contains_hd [of 194 "[165]" s]
  by (auto simp: detect_currency_def eur_literal_def gbp_literal_def jpy_literal_def)

text \<open>
  C4. The claim: a text that contains the euro sign, at any position, yields the currency
  EUR. The code at the text of the euro sign followed by \<^verbatim>\<open>99,00\<close>: the literal of line 162
  is not the euro sign but three other code points, none of the three tests of lines
  162--166 succeeds, and the result is the price 9900 with the default USD. The code
  answers EUR only when the text holds the three code points of that literal.
\<close>

theorem euro_sign_not_detected:
  "parse_price ascii_decimal (euro_sign # ustr_of ''99,00'') = (Some 9900, ''USD'') \<and>
   parse_price ascii_decimal (eur_literal @ ustr_of ''99,00'') = (Some 9900, ''EUR'')"
  by (simp add: parser_defs)

text \<open>
  The token the search finds, for every text: the first run of decimal digits of the text
  without its commas, with the full stop after it and the digits that follow when there
  are any. The full stop (code point 46) is not a decimal digit, which is what \<open>dec 46 = None\<close>
  says.
\<close>

lemma dropWhile_skip:
  assumes "\<forall>c \<in> set pre. P c" and "\<not> P d"
  shows "dropWhile P (pre @ d # ds) = d # ds"
  using assms by (simp add: dropWhile_append3)

lemma takeWhile_run:
  assumes "\<forall>c \<in> set ds. P c" and "list_all (\<lambda>c. \<not> P c) (take 1 rest)"
  shows "takeWhile P (ds @ rest) = ds" and "dropWhile P (ds @ rest) = rest"
  using assms by (cases rest; simp add: takeWhile_append2 dropWhile_append2)+

lemma not_comma_remove: "44 \<notin> set (remove_commas s)"
  by (simp add: remove_commas_def)

lemma remove_commas_id: "44 \<notin> set s \<Longrightarrow> remove_commas s = s"
  by (induction s) (auto simp: remove_commas_def)

lemma re_search_alt:
  "re_search dec s =
     (let t = dropWhile (not_digit_or_comma dec) s in
      if t = [] then None
      else (case dropWhile (digit_or_comma dec) t of
              [] \<Rightarrow> Some (takeWhile (digit_or_comma dec) t)
            | d # ds \<Rightarrow>
                if d = 46
                then Some (takeWhile (digit_or_comma dec) t @ [46] @ takeWhile (is_digit dec) ds)
                else Some (takeWhile (digit_or_comma dec) t)))"
proof (cases "dropWhile (not_digit_or_comma dec) s")
  case Nil
  show ?thesis unfolding re_search_def Let_def Nil by simp
next
  case (Cons c cs)
  show ?thesis unfolding re_search_def Let_def Cons by simp
qed

lemma re_search_first_token:
  assumes nc: "44 \<notin> set (pre @ ds @ rest)"
    and pre: "\<forall>c \<in> set pre. \<not> is_digit dec c"
    and ds: "ds \<noteq> []" "\<forall>c \<in> set ds. is_digit dec c"
    and rest: "list_all (\<lambda>c. \<not> is_digit dec c) (take 1 rest)"
  shows "re_search dec (pre @ ds @ rest) =
           Some (ds @ (case rest of [] \<Rightarrow> [] | c # r \<Rightarrow>
                   if c = 46 then 46 # takeWhile (is_digit dec) r else []))"
proof -
  obtain d ds' where d: "ds = d # ds'" using ds(1) by (cases ds) auto
  have P: "\<forall>c \<in> set pre. not_digit_or_comma dec c"
    using nc pre by (auto simp: not_digit_or_comma_def digit_or_comma_def)
  have nP: "\<not> not_digit_or_comma dec d"
    using ds(2) d by (simp add: not_digit_or_comma_def digit_or_comma_def)
  have dw: "dropWhile (not_digit_or_comma dec) (pre @ ds @ rest) = ds @ rest"
    using dropWhile_skip [OF P nP, of "ds' @ rest"] d by simp
  have Q: "\<forall>c \<in> set ds. digit_or_comma dec c"
    using ds(2) by (simp add: digit_or_comma_def)
  have nQ: "list_all (\<lambda>c. \<not> digit_or_comma dec c) (take 1 rest)"
    using rest nc by (cases rest) (auto simp: digit_or_comma_def)
  note run = takeWhile_run [OF Q nQ]
  have "re_search dec (pre @ ds @ rest) =
      (case rest of [] \<Rightarrow> Some ds
       | c # r \<Rightarrow> if c = 46 then Some (ds @ [46] @ takeWhile (is_digit dec) r) else Some ds)"
    unfolding re_search_alt Let_def dw run using ds(1) by simp
  then show ?thesis by (cases rest) simp_all
qed

lemma digits_value_Nil: "digits_value dec [] = 0"
  by (simp add: digits_value_def)

lemma py_float_digits:
  assumes "dec 46 = None" and "ds \<noteq> []" and "\<forall>c \<in> set ds. is_digit dec c"
  shows "py_float dec ds = Some (real (digits_value dec ds))"
proof -
  have no: "\<forall>c \<in> set ds. c \<noteq> 46"
    using assms(1,3) by (auto simp: is_digit_def)
  then have ip: "takeWhile (\<lambda>c. c \<noteq> 46) ds = ds"
    and fp: "dropWhile (\<lambda>c. c \<noteq> 46) ds = []"
    by simp_all
  show ?thesis
    unfolding py_float_def Let_def ip fp using assms(2,3)
    by (simp add: list_all_iff digits_value_Nil)
qed

lemma py_float_fraction:
  assumes "dec 46 = None" and "ds \<noteq> []" and "\<forall>c \<in> set ds. is_digit dec c"
    and "\<forall>c \<in> set fs. is_digit dec c"
  shows "py_float dec (ds @ 46 # fs) =
           Some (real (digits_value dec ds) + real (digits_value dec fs) / 10 ^ length fs)"
proof -
  have no: "\<forall>c \<in> set ds. c \<noteq> 46"
    using assms(1,3) by (auto simp: is_digit_def)
  then have ip: "takeWhile (\<lambda>c. c \<noteq> 46) (ds @ 46 # fs) = ds"
    and fp: "dropWhile (\<lambda>c. c \<noteq> 46) (ds @ 46 # fs) = 46 # fs"
    by (simp_all add: takeWhile_append2 dropWhile_append2)
  show ?thesis
    unfolding py_float_def Let_def ip fp using assms(2,3,4) by (simp add: list_all_iff)
qed

lemma parse_price_integer_token:
  assumes dot: "dec 46 = None"
    and t: "remove_commas (strip s) = pre @ ds @ rest"
    and pre: "\<forall>c \<in> set pre. \<not> is_digit dec c"
    and ds: "ds \<noteq> []" "\<forall>c \<in> set ds. is_digit dec c"
    and rest: "list_all (\<lambda>c. \<not> is_digit dec c \<and> c \<noteq> 46) (take 1 rest)"
  shows "parse_price dec s = (Some (real (digits_value dec ds)), detect_currency (strip s))"
proof -
  have nc: "44 \<notin> set (pre @ ds @ rest)"
    using not_comma_remove [of "strip s"] unfolding t .
  have r1: "list_all (\<lambda>c. \<not> is_digit dec c) (take 1 rest)"
    using rest by (cases rest) simp_all
  have "re_search dec (pre @ ds @ rest) = Some ds"
    using re_search_first_token [OF nc pre ds r1] rest by (cases rest) simp_all
  moreover have "remove_commas ds = ds"
    using nc by (intro remove_commas_id) simp
  ultimately show ?thesis
    using py_float_digits [OF dot ds] by (simp add: parse_price_def t)
qed

lemma parse_price_decimal_token:
  assumes dot: "dec 46 = None"
    and t: "remove_commas (strip s) = pre @ ds @ 46 # fs @ rest"
    and pre: "\<forall>c \<in> set pre. \<not> is_digit dec c"
    and ds: "ds \<noteq> []" "\<forall>c \<in> set ds. is_digit dec c"
    and fs: "\<forall>c \<in> set fs. is_digit dec c"
    and rest: "list_all (\<lambda>c. \<not> is_digit dec c) (take 1 rest)"
  shows "parse_price dec s =
           (Some (real (digits_value dec ds) + real (digits_value dec fs) / 10 ^ length fs),
            detect_currency (strip s))"
proof -
  have nc: "44 \<notin> set (pre @ ds @ 46 # fs @ rest)"
    using not_comma_remove [of "strip s"] unfolding t .
  have r1: "list_all (\<lambda>c. \<not> is_digit dec c) (take 1 (46 # fs @ rest))"
    using dot by (simp add: is_digit_def)
  have tw: "takeWhile (is_digit dec) (fs @ rest) = fs"
    using takeWhile_run(1) [OF fs rest] .
  have "re_search dec (pre @ ds @ 46 # fs @ rest) = Some (ds @ 46 # fs)"
    using re_search_first_token [OF nc pre ds r1] tw by simp
  moreover have "remove_commas (ds @ 46 # fs) = ds @ 46 # fs"
    using nc by (intro remove_commas_id) simp
  ultimately show ?thesis
    using py_float_fraction [OF dot ds fs] by (simp add: parse_price_def t)
qed

lemma digits_value_snoc:
  "digits_value dec (ds @ [c]) =
     10 * digits_value dec ds + (case dec c of None \<Rightarrow> 0 | Some d \<Rightarrow> d)"
  by (simp add: digits_value_def)


text \<open>
  The cases are all there are: a text has no digit, or it splits into characters that are
  not digits, a non-empty run of digits, and a rest that does not start with a digit.
\<close>

lemma first_token_exhaustive:
  "(\<forall>c \<in> set t. \<not> is_digit dec c) \<or>
   (\<exists>pre ds rest. t = pre @ ds @ rest \<and> (\<forall>c \<in> set pre. \<not> is_digit dec c) \<and> ds \<noteq> [] \<and>
      (\<forall>c \<in> set ds. is_digit dec c) \<and> list_all (\<lambda>c. \<not> is_digit dec c) (take 1 rest))"
proof (cases "\<forall>c \<in> set t. \<not> is_digit dec c")
  case True
  then show ?thesis by simp
next
  case False
  let ?pre = "takeWhile (\<lambda>c. \<not> is_digit dec c) t"
  let ?u = "dropWhile (\<lambda>c. \<not> is_digit dec c) t"
  let ?ds = "takeWhile (is_digit dec) ?u"
  let ?rest = "dropWhile (is_digit dec) ?u"
  define pre where "pre = takeWhile (\<lambda>c. \<not> is_digit dec c) t"
  define u where "u = dropWhile (\<lambda>c. \<not> is_digit dec c) t"
  define ds where "ds = takeWhile (is_digit dec) u"
  define rest where "rest = dropWhile (is_digit dec) u"
  have u: "u \<noteq> []" using False unfolding u_def by (simp add: dropWhile_eq_Nil_conv)
  have "is_digit dec (hd u)"
    using u hd_dropWhile [of "\<lambda>c. \<not> is_digit dec c" t] unfolding u_def by blast
  then have ds: "ds \<noteq> []" using u unfolding ds_def by (cases u) simp_all
  have t: "t = pre @ ds @ rest"
    unfolding pre_def ds_def rest_def u_def by simp
  have p: "\<forall>c \<in> set pre. \<not> is_digit dec c"
    unfolding pre_def by (auto dest: set_takeWhileD)
  have d: "\<forall>c \<in> set ds. is_digit dec c"
    unfolding ds_def by (auto dest: set_takeWhileD)
  have r: "list_all (\<lambda>c. \<not> is_digit dec c) (take 1 rest)"
  proof (cases rest)
    case Nil
    then show ?thesis by simp
  next
    case (Cons c cs)
    then have "rest \<noteq> []" by simp
    then have "\<not> is_digit dec (hd rest)"
      using hd_dropWhile [of "is_digit dec" u] unfolding rest_def by blast
    then show ?thesis using Cons by simp
  qed
  show ?thesis using t p ds d r by blast
qed

text \<open>
  C5. The text \<^verbatim>\<open>$1,234.56\<close> parses to the price 1234.56 with currency USD. For every table
  of decimal digits and every text: a text without a decimal digit yields no price, with
  the currency detected in the stripped text; otherwise, with white space stripped and
  every comma removed, the text is some characters that are not digits, then a first run
  of digits, then the rest, and the price is the decimal value of that first run alone
  when the rest is empty or starts with a character that is neither a digit nor a full
  stop, and the value of the run with the fraction digits when the rest is a full stop
  followed by a (possibly empty) run of digits. Whatever follows the first token has no
  effect on the price.
\<close>

theorem parse_price_first_token:
  "parse_price ascii_decimal (ustr_of ''$1,234.56'') = (Some (123456 / 100), ''USD'') \<and>
   (\<forall>dec s. (\<forall>c \<in> set s. \<not> is_digit dec c) \<longrightarrow>
      parse_price dec s = (None, detect_currency (strip s))) \<and>
   (\<forall>dec s pre ds rest.
      dec 46 = None \<and> remove_commas (strip s) = pre @ ds @ rest \<and>
      (\<forall>c \<in> set pre. \<not> is_digit dec c) \<and> ds \<noteq> [] \<and> (\<forall>c \<in> set ds. is_digit dec c) \<and>
      list_all (\<lambda>c. \<not> is_digit dec c \<and> c \<noteq> 46) (take 1 rest) \<longrightarrow>
      parse_price dec s = (Some (real (digits_value dec ds)), detect_currency (strip s))) \<and>
   (\<forall>dec s pre ds fs rest.
      dec 46 = None \<and> remove_commas (strip s) = pre @ ds @ 46 # fs @ rest \<and>
      (\<forall>c \<in> set pre. \<not> is_digit dec c) \<and> ds \<noteq> [] \<and> (\<forall>c \<in> set ds. is_digit dec c) \<and>
      (\<forall>c \<in> set fs. is_digit dec c) \<and> list_all (\<lambda>c. \<not> is_digit dec c) (take 1 rest) \<longrightarrow>
      parse_price dec s =
        (Some (real (digits_value dec ds) + real (digits_value dec fs) / 10 ^ length fs),
         detect_currency (strip s)))"
proof (intro conjI allI impI)
  show "parse_price ascii_decimal (ustr_of ''$1,234.56'') = (Some (123456 / 100), ''USD'')"
    by (simp add: parser_defs)
next
  fix dec s assume "\<forall>c \<in> set s. \<not> is_digit dec c"
  then show "parse_price dec s = (None, detect_currency (strip s))"
    by (rule parse_price_no_digit)
next
  fix dec s pre ds rest
  assume "dec 46 = None \<and> remove_commas (strip s) = pre @ ds @ rest \<and>
      (\<forall>c \<in> set pre. \<not> is_digit dec c) \<and> ds \<noteq> [] \<and> (\<forall>c \<in> set ds. is_digit dec c) \<and>
      list_all (\<lambda>c. \<not> is_digit dec c \<and> c \<noteq> 46) (take 1 rest)"
  then show "parse_price dec s = (Some (real (digits_value dec ds)), detect_currency (strip s))"
    by (elim conjE) (rule parse_price_integer_token)
next
  fix dec s pre ds fs rest
  assume "dec 46 = None \<and> remove_commas (strip s) = pre @ ds @ 46 # fs @ rest \<and>
      (\<forall>c \<in> set pre. \<not> is_digit dec c) \<and> ds \<noteq> [] \<and> (\<forall>c \<in> set ds. is_digit dec c) \<and>
      (\<forall>c \<in> set fs. is_digit dec c) \<and> list_all (\<lambda>c. \<not> is_digit dec c) (take 1 rest)"
  then show "parse_price dec s =
        (Some (real (digits_value dec ds) + real (digits_value dec fs) / 10 ^ length fs),
         detect_currency (strip s))"
    by (elim conjE) (rule parse_price_decimal_token)
qed


theorem parse_price_first_token_witness:
  "parse_price ascii_decimal (ustr_of ''Out of stock'') = (None, ''USD'') \<and>
   parse_price ascii_decimal (eur_literal @ ustr_of '' n/a'') = (None, ''EUR'') \<and>
   parse_price ascii_decimal (ustr_of ''  Price: 1,234 each '') = (Some 1234, ''USD'') \<and>
   parse_price ascii_decimal (ustr_of ''Was $30.00 now $24.99'') = (Some 30, ''USD'')"
proof -
  note th = parse_price_first_token
  have a: "parse_price ascii_decimal (ustr_of ''Out of stock'') = (None, ''USD'')"
  proof -
    have "\<forall>c \<in> set (ustr_of ''Out of stock''). \<not> is_digit ascii_decimal c"
      by (simp add: ascii_defs)
    moreover have "detect_currency (strip (ustr_of ''Out of stock'')) = ''USD''"
      by (simp add: parser_defs)
    ultimately show ?thesis using th by simp
  qed
  have b: "parse_price ascii_decimal (eur_literal @ ustr_of '' n/a'') = (None, ''EUR'')"
  proof -
    have "\<forall>c \<in> set (eur_literal @ ustr_of '' n/a''). \<not> is_digit ascii_decimal c"
      by (simp add: ascii_defs eur_literal_def)
    moreover have "detect_currency (strip (eur_literal @ ustr_of '' n/a'')) = ''EUR''"
      by (simp add: parser_defs)
    ultimately show ?thesis using th by simp
  qed
  have c: "parse_price ascii_decimal (ustr_of ''  Price: 1,234 each '') = (Some 1234, ''USD'')"
  proof -
    have "ascii_decimal 46 = None \<and>
        remove_commas (strip (ustr_of ''  Price: 1,234 each '')) =
          ustr_of ''Price: '' @ ustr_of ''1234'' @ ustr_of '' each'' \<and>
        (\<forall>c \<in> set (ustr_of ''Price: ''). \<not> is_digit ascii_decimal c) \<and>
        ustr_of ''1234'' \<noteq> [] \<and> (\<forall>c \<in> set (ustr_of ''1234''). is_digit ascii_decimal c) \<and>
        list_all (\<lambda>c. \<not> is_digit ascii_decimal c \<and> c \<noteq> 46) (take 1 (ustr_of '' each''))"
      by (simp add: ascii_defs strip_def is_space_def remove_commas_def)
    moreover have "digits_value ascii_decimal (ustr_of ''1234'') = 1234"
      by (simp add: ascii_defs digits_value_def)
    moreover have "detect_currency (strip (ustr_of ''  Price: 1,234 each '')) = ''USD''"
      by (simp add: parser_defs)
    ultimately show ?thesis
      using th [THEN conjunct2, THEN conjunct2, THEN conjunct1, rule_format,
          of ascii_decimal "ustr_of ''  Price: 1,234 each ''" "ustr_of ''Price: ''"
            "ustr_of ''1234''" "ustr_of '' each''"]
      by simp
  qed
  have d: "parse_price ascii_decimal (ustr_of ''Was $30.00 now $24.99'') = (Some 30, ''USD'')"
  proof -
    have "ascii_decimal 46 = None \<and>
        remove_commas (strip (ustr_of ''Was $30.00 now $24.99'')) =
          ustr_of ''Was $'' @ ustr_of ''30'' @ 46 # ustr_of ''00'' @ ustr_of '' now $24.99'' \<and>
        (\<forall>c \<in> set (ustr_of ''Was $''). \<not> is_digit ascii_decimal c) \<and>
        ustr_of ''30'' \<noteq> [] \<and> (\<forall>c \<in> set (ustr_of ''30''). is_digit ascii_decimal c) \<and>
        (\<forall>c \<in> set (ustr_of ''00''). is_digit ascii_decimal c) \<and>
        list_all (\<lambda>c. \<not> is_digit ascii_decimal c) (take 1 (ustr_of '' now $24.99''))"
      by (simp add: ascii_defs strip_def is_space_def remove_commas_def)
    moreover have "digits_value ascii_decimal (ustr_of ''30'') = 30"
      "digits_value ascii_decimal (ustr_of ''00'') = 0"
      by (simp_all add: ascii_defs digits_value_def)
    moreover have "detect_currency (strip (ustr_of ''Was $30.00 now $24.99'')) = ''USD''"
      by (simp add: parser_defs)
    ultimately show ?thesis
      using th [THEN conjunct2, THEN conjunct2, THEN conjunct2, rule_format,
          of ascii_decimal "ustr_of ''Was $30.00 now $24.99''" "ustr_of ''Was $''"
            "ustr_of ''30''" "ustr_of ''00''" "ustr_of '' now $24.99''"]
      by simp
  qed
  show ?thesis using a b c d by simp
qed


section \<open>Properties of one observation\<close>

lemma scrape_price_Raises: "scrape_price dec p Raises now = Inl PlaywrightError"
  by (simp add: scrape_price_def)

lemma scrape_price_NoText: "scrape_price dec p NoText now = Inr None"
  by (simp add: scrape_price_def)

lemma scrape_price_no_price:
  "fst (parse_price dec s) = None \<Longrightarrow> scrape_price dec p (Text s) now = Inr None"
  by (cases "parse_price dec s") (simp add: scrape_price_def)

lemma scrape_price_zero:
  "fst (parse_price dec s) = Some 0 \<Longrightarrow> scrape_price dec p (Text s) now = Inr None"
  by (cases "parse_price dec s") (simp add: scrape_price_def)

lemma scrape_price_positive:
  assumes "scrape_price dec p obs now = Inr (Some r)"
  shows "0 < price r"
  using assms
  by (auto simp: scrape_price_def split: observation.splits option.splits prod.splits if_splits
      dest!: parse_price_nonneg)

lemma scrape_price_returns:
  "does_not_raise (p, obs, now) \<Longrightarrow> \<exists>r. scrape_price dec p obs now = Inr r"
  by (cases obs) (auto simp: does_not_raise_def scrape_price_def split: option.splits prod.splits)

lemma scrape_sample_2999:
  "scrape_price ascii_decimal sample_product (Text (ustr_of ''$29.99'')) now =
     Inr (Some (sample_record (2999 / 100) now))"
  by (simp add: scrape_price_def parser_defs sample_product_def sample_record_def)

lemma scrape_sample_2499:
  "scrape_price ascii_decimal sample_product (Text (ustr_of ''$24.99'')) now =
     Inr (Some (sample_record (2499 / 100) now))"
  by (simp add: scrape_price_def parser_defs sample_product_def sample_record_def)

lemma scrape_sample_2399:
  "scrape_price ascii_decimal sample_product (Text (ustr_of ''$23.99'')) now =
     Inr (Some (sample_record (2399 / 100) now))"
  by (simp add: scrape_price_def parser_defs sample_product_def sample_record_def)

lemma scrape_out_of_stock:
  "scrape_price ascii_decimal sample_product (Text (ustr_of ''Out of stock'')) now = Inr None"
  by (simp add: scrape_price_no_price parse_out_of_stock)


section \<open>Properties of the history\<close>

lemma length_last_100: "length (last_100 xs) \<le> 100"
  by (simp add: last_100_def)

lemma last_100_short: "length xs \<le> 100 \<Longrightarrow> last_100 xs = xs"
  by (simp add: last_100_def)

lemma set_last_100: "set (last_100 xs) \<subseteq> set xs"
  unfolding last_100_def by (rule set_drop_subset)


lemma last_100_snoc: "last_100 (last_100 xs @ [x]) = last_100 (xs @ [x])"
proof (cases "length xs \<le> 100")
  case True
  then show ?thesis by (simp add: last_100_short)
next
  case False
  then have n: "100 < length xs" by simp
  have "length (last_100 xs) = 100"
    using n by (simp add: last_100_def)
  then have "last_100 (last_100 xs @ [x]) = drop 1 (last_100 xs) @ [x]"
    by (simp add: last_100_def)
  also have "drop 1 (last_100 xs) = drop (length xs - 99) xs"
  proof -
    have "1 + (length xs - 100) = length xs - 99" using n by arith
    then show ?thesis by (simp add: last_100_def)
  qed
  also have "drop (length xs - 99) xs @ [x] = last_100 (xs @ [x])"
    using n by (simp add: last_100_def)
  finally show ?thesis .
qed

lemma records_at_store:
  "records_at (store_record key_of h p r) k =
     (if k = key_of (url p) then last_100 (records_at h k @ [r]) else records_at h k)"
  by (simp add: store_record_def append_capped_def get_price_history_def records_at_def)

lemma get_store_same:
  "get_price_history key_of (store_record key_of h p r) (url p) =
     last_100 (get_price_history key_of h (url p) @ [r])"
  by (simp add: get_price_history_def records_at_store)

lemma foldl_store_history:
  "rs \<noteq> [] \<Longrightarrow>
   get_price_history key_of (foldl (\<lambda>h r. store_record key_of h p r) h0 rs) (url p) =
     last_100 (get_price_history key_of h0 (url p) @ rs)"
proof (induction rs rule: rev_induct)
  case Nil
  then show ?case by simp
next
  case (snoc r rs)
  show ?case
  proof (cases "rs = []")
    case True
    then show ?thesis by (simp add: get_store_same)
  next
    case False
    then show ?thesis using snoc.IH by (simp add: get_store_same last_100_snoc)
  qed
qed

lemma store_records_history:
  assumes "length (get_price_history key_of h0 (url p)) \<le> 100"
  shows "get_price_history key_of (store_records key_of p h0 rs) (url p) =
           last_100 (get_price_history key_of h0 (url p) @ rs)"
proof (cases "rs = []")
  case True
  then show ?thesis using assms by (simp add: store_records_def last_100_short)
next
  case False
  then show ?thesis unfolding store_records_def by (rule foldl_store_history)
qed

lemma bounded_store:
  assumes "\<forall>k. length (records_at h k) \<le> 100"
  shows "\<forall>k. length (records_at (store_record key_of h p r) k) \<le> 100"
  using assms by (simp add: records_at_store length_last_100)

lemma positive_store:
  assumes "\<forall>k. list_all (\<lambda>r. 0 < price r) (records_at h k)" and "0 < price r"
  shows "\<forall>k. list_all (\<lambda>r. 0 < price r) (records_at (store_record key_of h p r) k)"
proof
  fix k
  have "list_all (\<lambda>r. 0 < price r) (records_at h k @ [r])"
    using assms by simp
  then have "list_all (\<lambda>r. 0 < price r) (last_100 (records_at h k @ [r]))"
    using set_last_100 [of "records_at h k @ [r]"] unfolding list_all_iff by blast
  then show "list_all (\<lambda>r. 0 < price r) (records_at (store_record key_of h p r) k)"
    using assms(1) by (auto simp: records_at_store)
qed


section \<open>Properties of the monitoring cycle\<close>

lemma check_product_skip:
  "scrape_price dec p obs now = Inr None \<Longrightarrow>
   check_product key_of dec (p, obs, now) (alerts, h) = (Inr alerts, h)"
  by (simp add: check_product_def)

lemma check_product_raise:
  "scrape_price dec p obs now = Inl e \<Longrightarrow>
   check_product key_of dec (p, obs, now) (alerts, h) = (Inl e, h)"
  by (simp add: check_product_def)

lemma check_product_store:
  assumes "scrape_price dec p obs now = Inr (Some r)"
  shows "\<exists>new. check_product key_of dec (p, obs, now) (alerts, h) =
           (Inr (alerts @ new), store_record key_of h p r)"
proof -
  obtain a where a: "check_alert_conditions key_of h p r = Inr a"
    using check_alert_conditions_total by blast
  show ?thesis
  proof (cases a)
    case None
    then have "check_product key_of dec (p, obs, now) (alerts, h) =
        (Inr (alerts @ []), store_record key_of h p r)"
      using a assms by (simp add: check_product_def)
    then show ?thesis by blast
  next
    case (Some x)
    then have "check_product key_of dec (p, obs, now) (alerts, h) =
        (Inr (alerts @ [x]), store_record key_of h p r)"
      using a assms by (simp add: check_product_def)
    then show ?thesis by blast
  qed
qed

lemma check_product_cases:
  "(\<exists>e. check_product key_of dec (p, obs, now) (alerts, h) = (Inl e, h)) \<or>
   check_product key_of dec (p, obs, now) (alerts, h) = (Inr alerts, h) \<or>
   (\<exists>r new. scrape_price dec p obs now = Inr (Some r) \<and>
      check_product key_of dec (p, obs, now) (alerts, h) =
        (Inr (alerts @ new), store_record key_of h p r))"
proof (cases "scrape_price dec p obs now")
  case (Inl e)
  then show ?thesis by (simp add: check_product_raise)
next
  case (Inr x)
  show ?thesis
  proof (cases x)
    case None
    then show ?thesis using Inr by (simp add: check_product_skip)
  next
    case (Some r)
    then show ?thesis using Inr check_product_store [of dec p obs now r key_of alerts h] by blast
  qed
qed

lemma check_all_from_append:
  "check_all_from key_of dec (ws1 @ ws2) (alerts, h) =
     (case check_all_from key_of dec ws1 (alerts, h) of
        (Inl e, h') \<Rightarrow> (Inl e, h')
      | (Inr alerts', h') \<Rightarrow> check_all_from key_of dec ws2 (alerts', h'))"
  by (induction ws1 arbitrary: alerts h) (simp_all split: prod.splits sum.splits)

lemma check_all_skip:
  assumes "scrape_price dec p obs now = Inr None"
  shows "check_all key_of dec (ws1 @ (p, obs, now) # ws2) h = check_all key_of dec (ws1 @ ws2) h"
  unfolding check_all_def
  by (simp add: check_all_from_append check_product_skip [OF assms] split: prod.splits sum.splits)

lemma check_all_from_invariant:
  assumes step: "\<And>h p r. I h \<Longrightarrow> 0 < price r \<Longrightarrow> I (store_record key_of h p r)"
    and "I h"
  shows "I (snd (check_all_from key_of dec ws (alerts, h)))"
  using assms(2)
proof (induction ws arbitrary: alerts h)
  case Nil
  then show ?case by simp
next
  case (Cons w ws)
  obtain p obs now where w: "w = (p, obs, now)" by (cases w) auto
  consider (raise) e where "check_product key_of dec (p, obs, now) (alerts, h) = (Inl e, h)"
    | (skip) "check_product key_of dec (p, obs, now) (alerts, h) = (Inr alerts, h)"
    | (store) r new where "scrape_price dec p obs now = Inr (Some r)"
        "check_product key_of dec (p, obs, now) (alerts, h) =
          (Inr (alerts @ new), store_record key_of h p r)"
    using check_product_cases [of key_of dec p obs now alerts h] by blast
  then show ?case
  proof cases
    case raise
    then show ?thesis using Cons.prems w by simp
  next
    case skip
    then show ?thesis using Cons.IH [OF Cons.prems] w by simp
  next
    case store
    have "I (store_record key_of h p r)"
      using step Cons.prems scrape_price_positive [OF store(1)] by blast
    then show ?thesis using Cons.IH store(2) w by simp
  qed
qed

lemma check_all_from_returns:
  assumes "list_all does_not_raise ws"
  shows "\<exists>alerts'. fst (check_all_from key_of dec ws (alerts, h)) = Inr alerts'"
  using assms
proof (induction ws arbitrary: alerts h)
  case Nil
  show ?case by simp
next
  case (Cons w ws)
  obtain p obs now where w: "w = (p, obs, now)" by (cases w) auto
  obtain x where x: "scrape_price dec p obs now = Inr x"
    using Cons.prems w scrape_price_returns [of p obs now dec] by auto
  have "\<exists>a h'. check_product key_of dec w (alerts, h) = (Inr a, h')"
  proof (cases x)
    case None
    then show ?thesis using x w by (simp add: check_product_skip)
  next
    case (Some r)
    then show ?thesis using x w check_product_store [of dec p obs now r key_of alerts h] by auto
  qed
  then obtain a h' where "check_product key_of dec w (alerts, h) = (Inr a, h')" by blast
  then show ?case using Cons.IH [of a h'] Cons.prems by simp
qed


section \<open>The claims about the history and the cycle\<close>

lemma sample_cycle_result:
  "check_all sample_key ascii_decimal
     [(sample_product, Text (ustr_of ''$29.99''), ''t0''),
      (sample_product, Text (ustr_of ''$24.99''), ''t2'')] Map.empty =
   (Inr [make_alert sample_product (sample_record (2499 / 100) ''t2'') (2999 / 100)
           (- (50000 / 2999)) ''target_reached''],
    [sample_key (url sample_product) \<mapsto>
       [sample_record (2999 / 100) ''t0'', sample_record (2499 / 100) ''t2'']])"
proof -
  let ?k = "sample_key (url sample_product)"
  let ?h1 = "[?k \<mapsto> [sample_record (2999 / 100) ''t0'']]"
  have s1: "check_product sample_key ascii_decimal
      (sample_product, Text (ustr_of ''$29.99''), ''t0'') ([], Map.empty) = (Inr [], ?h1)"
    by (simp add: check_product_def scrape_sample_2999 check_alert_conditions_def
        get_price_history_def records_at_def store_record_def append_capped_def last_100_def)
  have a: "check_alert_conditions sample_key ?h1 sample_product (sample_record (2499 / 100) ''t2'')
      = Inr (Some (make_alert sample_product (sample_record (2499 / 100) ''t2'') (2999 / 100)
           (- (50000 / 2999)) ''target_reached''))"
    by (simp add: check_alert_conditions_def get_price_history_def records_at_def
        compute_change_pos select_alert_type_def target_applies_def above_target_def
        sample_product_def sample_record_def)
  have s2: "check_product sample_key ascii_decimal
      (sample_product, Text (ustr_of ''$24.99''), ''t2'') ([], ?h1) =
      (Inr [make_alert sample_product (sample_record (2499 / 100) ''t2'') (2999 / 100)
           (- (50000 / 2999)) ''target_reached''],
        [?k \<mapsto> [sample_record (2999 / 100) ''t0'', sample_record (2499 / 100) ''t2'']])"
    by (simp add: check_product_def scrape_sample_2499 a
        get_price_history_def records_at_def store_record_def append_capped_def last_100_def)
  show ?thesis
    by (simp add: check_all_def s1 s2)
qed

lemma sample_cycle_eq:
  "check_all sample_key ascii_decimal sample_cycle Map.empty =
   (Inr [make_alert sample_product (sample_record (2499 / 100) ''t2'') (2999 / 100)
           (- (50000 / 2999)) ''target_reached''],
    [sample_key (url sample_product) \<mapsto>
       [sample_record (2999 / 100) ''t0'', sample_record (2499 / 100) ''t2'']])"
proof -
  have "sample_cycle =
      [(sample_product, Text (ustr_of ''$29.99''), ''t0'')] @
      (sample_product, Text (ustr_of ''Out of stock''), ''t1'') #
      [(sample_product, Text (ustr_of ''$24.99''), ''t2'')]"
    by (simp add: sample_cycle_def)
  moreover have "check_all sample_key ascii_decimal
      ([(sample_product, Text (ustr_of ''$29.99''), ''t0'')] @
       (sample_product, Text (ustr_of ''Out of stock''), ''t1'') #
       [(sample_product, Text (ustr_of ''$24.99''), ''t2'')]) Map.empty =
     check_all sample_key ascii_decimal
      ([(sample_product, Text (ustr_of ''$29.99''), ''t0'')] @
       [(sample_product, Text (ustr_of ''$24.99''), ''t2'')]) Map.empty"
    by (rule check_all_skip [OF scrape_out_of_stock])
  ultimately show ?thesis
    using sample_cycle_result by simp
qed

lemma check_all_snoc:
  "check_all key_of dec (ws @ [w]) h =
     (case check_all key_of dec ws h of
        (Inl e, h') \<Rightarrow> (Inl e, h')
      | (Inr alerts, h') \<Rightarrow> check_product key_of dec w (alerts, h'))"
proof -
  have "check_all_from key_of dec [w] (a, h') = check_product key_of dec w (a, h')" for a h'
    by (cases "check_product key_of dec w (a, h')") (auto split: sum.splits)
  then show ?thesis
    by (simp add: check_all_def check_all_from_append split: prod.splits sum.splits)
qed

text \<open>
  C9. The claim: no failed observation affects the other products of the cycle. The code
  at a cycle in which the browser raises for one product (the fourth work item) outside the
  \<^verbatim>\<open>try\<close> block of \<^verbatim>\<open>scrape_price\<close>: the exception leaves \<^verbatim>\<open>check_all\<close>, the alert collected for
  an earlier observation is not returned, and the observation after it is never made, so
  its record is missing from the history. Without that work item the cycle returns the
  alert and stores the later record.
\<close>

theorem raising_observation_aborts_cycle:
  "check_all sample_key ascii_decimal
     (sample_cycle @ [(sample_product, Raises, ''t3''),
                      (sample_product, Text (ustr_of ''$29.99''), ''t4'')]) Map.empty =
   (Inl PlaywrightError,
    [sample_key (url sample_product) \<mapsto>
       [sample_record (2999 / 100) ''t0'', sample_record (2499 / 100) ''t2'']]) \<and>
   check_all sample_key ascii_decimal
     (sample_cycle @ [(sample_product, Text (ustr_of ''$29.99''), ''t4'')]) Map.empty =
   (Inr [make_alert sample_product (sample_record (2499 / 100) ''t2'') (2999 / 100)
           (- (50000 / 2999)) ''target_reached''],
    [sample_key (url sample_product) \<mapsto>
       [sample_record (2999 / 100) ''t0'', sample_record (2499 / 100) ''t2'',
        sample_record (2999 / 100) ''t4'']])"
proof
  let ?h2 = "[sample_key (url sample_product) \<mapsto>
       [sample_record (2999 / 100) ''t0'', sample_record (2499 / 100) ''t2'']]"
  let ?al = "[make_alert sample_product (sample_record (2499 / 100) ''t2'') (2999 / 100)
           (- (50000 / 2999)) ''target_reached'']"
  have "check_all sample_key ascii_decimal (sample_cycle @ [(sample_product, Raises, ''t3'')])
      Map.empty = (Inl PlaywrightError, ?h2)"
    by (simp add: check_all_snoc sample_cycle_eq check_product_raise scrape_price_Raises)
  then show "check_all sample_key ascii_decimal
     (sample_cycle @ [(sample_product, Raises, ''t3''),
                      (sample_product, Text (ustr_of ''$29.99''), ''t4'')]) Map.empty =
     (Inl PlaywrightError, ?h2)"
    using check_all_snoc [of sample_key ascii_decimal
        "sample_cycle @ [(sample_product, Raises, ''t3'')]"
        "(sample_product, Text (ustr_of ''$29.99''), ''t4'')" Map.empty]
    by simp
  have a: "check_alert_conditions sample_key ?h2 sample_product (sample_record (2999 / 100) ''t4'')
      = Inr None"
    by (simp add: check_alert_conditions_def get_price_history_def records_at_def
        compute_change_pos select_alert_type_def target_applies_def above_target_def
        sample_product_def sample_record_def)
  have "check_product sample_key ascii_decimal
      (sample_product, Text (ustr_of ''$29.99''), ''t4'') (?al, ?h2) =
      (Inr ?al, [sample_key (url sample_product) \<mapsto>
       [sample_record (2999 / 100) ''t0'', sample_record (2499 / 100) ''t2'',
        sample_record (2999 / 100) ''t4'']])"
    by (simp add: check_product_def scrape_sample_2999 a
        get_price_history_def records_at_def store_record_def append_capped_def last_100_def)
  then show "check_all sample_key ascii_decimal
     (sample_cycle @ [(sample_product, Text (ustr_of ''$29.99''), ''t4'')]) Map.empty =
     (Inr ?al, [sample_key (url sample_product) \<mapsto>
       [sample_record (2999 / 100) ''t0'', sample_record (2499 / 100) ''t2'',
        sample_record (2999 / 100) ''t4'']])"
    by (simp add: check_all_snoc sample_cycle_eq)
qed

text \<open>
  C9, as amended. For a product whose observation fails inside the \<^verbatim>\<open>try\<close> block of
  \<^verbatim>\<open>scrape_price\<close> (the outcome \<open>NoText\<close>), or whose text yields no price, no record is
  built; the step of the cycle leaves the alerts and every history as they were; and the
  whole cycle ends as it ends without that product in the list: the same alerts or the
  same exception, and the same histories.
\<close>

theorem caught_failure_is_isolated:
  assumes "obs = NoText \<or> (\<exists>s. obs = Text s \<and> fst (parse_price dec s) = None)"
  shows "scrape_price dec p obs now = Inr None \<and>
         check_product key_of dec (p, obs, now) (alerts, h) = (Inr alerts, h) \<and>
         check_all key_of dec (before @ (p, obs, now) # after) h0 =
           check_all key_of dec (before @ after) h0"
proof -
  have none: "scrape_price dec p obs now = Inr None"
    using assms by (auto simp: scrape_price_NoText scrape_price_no_price)
  show ?thesis
    using none check_product_skip [OF none] check_all_skip [OF none] by blast
qed

theorem caught_failure_is_isolated_witness:
  "scrape_price ascii_decimal sample_product (Text (ustr_of ''Out of stock'')) ''t1'' = Inr None \<and>
   check_all sample_key ascii_decimal sample_cycle Map.empty =
     (Inr [make_alert sample_product (sample_record (2499 / 100) ''t2'') (2999 / 100)
             (- (50000 / 2999)) ''target_reached''],
      [sample_key (url sample_product) \<mapsto>
         [sample_record (2999 / 100) ''t0'', sample_record (2499 / 100) ''t2'']])"
proof -
  have a: "Text (ustr_of ''Out of stock'') = NoText \<or>
      (\<exists>s. Text (ustr_of ''Out of stock'') = Text s \<and> fst (parse_price ascii_decimal s) = None)"
    by (simp add: parse_out_of_stock)
  have c: "sample_cycle =
      [(sample_product, Text (ustr_of ''$29.99''), ''t0'')] @
      (sample_product, Text (ustr_of ''Out of stock''), ''t1'') #
      [(sample_product, Text (ustr_of ''$24.99''), ''t2'')]"
    by (simp add: sample_cycle_def)
  show ?thesis
    using caught_failure_is_isolated [OF a, of sample_product "''t1''" sample_key
        "[]" Map.empty "[(sample_product, Text (ustr_of ''$29.99''), ''t0'')]"
        "[(sample_product, Text (ustr_of ''$24.99''), ''t2'')]" Map.empty]
      sample_cycle_result
    unfolding c by simp
qed

lemma check_all_invariant:
  assumes "\<And>h p r. I h \<Longrightarrow> 0 < price r \<Longrightarrow> I (store_record key_of h p r)" and "I h"
  shows "I (snd (check_all key_of dec ws h))"
  unfolding check_all_def using assms by (rule check_all_from_invariant)

lemma check_all_returns:
  "list_all does_not_raise ws \<Longrightarrow> \<exists>alerts. fst (check_all key_of dec ws h) = Inr alerts"
  unfolding check_all_def by (rule check_all_from_returns)

lemma sample_cycle_does_not_raise: "list_all does_not_raise sample_cycle"
  by (simp add: sample_cycle_def does_not_raise_def)

text \<open>
  C2. Appends to one product's history, starting from a history of at most 100 records
  (the empty one in particular): after any number of appends the history has at most 100
  records and is the last 100 of all records in their order of insertion, so what is lost
  is a prefix (the oldest records); after 101 appends to an empty history exactly the
  first record is gone (and occurs nowhere in the history when the records are distinct).
  A whole cycle keeps every history within 100 records, also when an exception ends it,
  and it returns its alerts when no observation raises.
\<close>

theorem history_bounded_fifo:
  assumes "length (get_price_history key_of h0 (url p)) \<le> 100"
  shows "length (get_price_history key_of (store_records key_of p h0 rs) (url p)) \<le> 100 \<and>
         get_price_history key_of (store_records key_of p h0 rs) (url p) =
           last_100 (get_price_history key_of h0 (url p) @ rs) \<and>
         (\<exists>evicted. get_price_history key_of h0 (url p) @ rs =
              evicted @ get_price_history key_of (store_records key_of p h0 rs) (url p)) \<and>
         (get_price_history key_of h0 (url p) = [] \<and> length rs = 101 \<longrightarrow>
            get_price_history key_of (store_records key_of p h0 rs) (url p) = tl rs) \<and>
         (get_price_history key_of h0 (url p) = [] \<and> length rs = 101 \<and> distinct rs \<longrightarrow>
            hd rs \<notin> set (get_price_history key_of (store_records key_of p h0 rs) (url p))) \<and>
         ((\<forall>k. length (records_at h k) \<le> 100) \<longrightarrow>
            (\<forall>k. length (records_at (snd (check_all key_of dec ws h)) k) \<le> 100) \<and>
            (list_all does_not_raise ws \<longrightarrow>
               (\<exists>alerts. fst (check_all key_of dec ws h) = Inr alerts)))"
proof -
  let ?old = "get_price_history key_of h0 (url p)"
  let ?new = "get_price_history key_of (store_records key_of p h0 rs) (url p)"
  have eq: "?new = last_100 (?old @ rs)"
    using assms by (rule store_records_history)
  have len: "length ?new \<le> 100"
    unfolding eq by (rule length_last_100)
  have suffix: "\<exists>evicted. ?old @ rs = evicted @ ?new"
    unfolding eq last_100_def by (metis append_take_drop_id)
  have tl: "?new = tl rs" if "?old = []" and "length rs = 101"
  proof -
    have "?new = drop 1 rs" using that by (simp add: eq last_100_def)
    then show ?thesis by (simp add: drop_Suc)
  qed
  have gone: "hd rs \<notin> set ?new"
    if e: "?old = []" and n: "length rs = 101" and d: "distinct rs"
  proof -
    obtain r rs' where rs: "rs = r # rs'" using n by (cases rs) auto
    have "?new = rs'" using tl [OF e n] rs by simp
    then show ?thesis using d rs by simp
  qed
  have cycle: "\<forall>k. length (records_at (snd (check_all key_of dec ws h)) k) \<le> 100"
    if b: "\<forall>k. length (records_at h k) \<le> 100"
    using bounded_store b
    by (rule check_all_invariant [where I = "\<lambda>h. \<forall>k. length (records_at h k) \<le> 100"])
  show ?thesis using eq len suffix tl gone cycle check_all_returns by blast
qed

theorem history_bounded_fifo_witness:
  "length (get_price_history sample_key (store_records sample_key sample_product Map.empty sample_run)
             (url sample_product)) \<le> 100 \<and>
   get_price_history sample_key (store_records sample_key sample_product Map.empty sample_run)
      (url sample_product) = tl sample_run \<and>
   hd sample_run \<notin> set (get_price_history sample_key
      (store_records sample_key sample_product Map.empty sample_run) (url sample_product)) \<and>
   (\<forall>k. length (records_at (snd (check_all sample_key ascii_decimal sample_cycle Map.empty)) k)
      \<le> 100) \<and>
   (\<exists>alerts. fst (check_all sample_key ascii_decimal sample_cycle Map.empty) = Inr alerts)"
proof -
  have a: "get_price_history sample_key Map.empty (url sample_product) = []"
    by (simp add: get_price_history_def records_at_def)
  have b: "length sample_run = 101"
    by (simp add: sample_run_def)
  have c: "distinct sample_run"
    by (simp add: sample_run_def distinct_map inj_on_def sample_record_def)
  have d: "\<forall>k. length (records_at Map.empty k) \<le> 100"
    by (simp add: records_at_def)
  have len: "length (get_price_history sample_key Map.empty (url sample_product)) \<le> 100"
    using a by simp
  show ?thesis
    using history_bounded_fifo [OF len, of sample_run Map.empty ascii_decimal sample_cycle]
      a b c d sample_cycle_does_not_raise by blast
qed

text \<open>
  C3. When the history holds no record for the product (no entry for its key, or an empty
  list), the alert check returns no alert for every current record, and the step of the
  cycle for a successful observation adds no alert and leaves the product's history with
  exactly the new record.
\<close>

theorem first_observation_no_alert:
  assumes "get_price_history key_of h (url p) = []"
  shows "check_alert_conditions key_of h p current = Inr None \<and>
         (\<forall>dec obs now alerts r. scrape_price dec p obs now = Inr (Some r) \<longrightarrow>
            check_product key_of dec (p, obs, now) (alerts, h) =
              (Inr alerts, h(key_of (url p) \<mapsto> [r])))"
proof -
  have none: "check_alert_conditions key_of h p c = Inr None" for c
    using assms by (simp add: check_alert_conditions_def)
  have "store_record key_of h p r = h(key_of (url p) \<mapsto> [r])" for r
    using assms
    by (simp add: store_record_def append_capped_def get_price_history_def records_at_def
        last_100_def)
  then show ?thesis using none by (simp add: check_product_def)
qed

theorem first_observation_no_alert_witness:
  "check_alert_conditions sample_key Map.empty sample_product (sample_record (2999 / 100) ''t0'')
     = Inr None \<and>
   check_product sample_key ascii_decimal (sample_product, Text (ustr_of ''$29.99''), ''t0'')
     ([], Map.empty)
     = (Inr [], [sample_key (url sample_product) \<mapsto> [sample_record (2999 / 100) ''t0'']])"
proof -
  have a: "get_price_history sample_key Map.empty (url sample_product) = []"
    by (simp add: get_price_history_def records_at_def)
  show ?thesis
    using first_observation_no_alert [OF a, of "sample_record (2999 / 100) ''t0''"]
      scrape_sample_2999 [of "''t0''"]
    by simp
qed




text \<open>
  C10. A text that parses to the price 0 builds no record, and the step of the cycle for
  it changes nothing, as for a text without a price. Every record that an observation
  builds has a strictly positive price, and a cycle that starts from a history of records
  with positive prices (the empty history in particular) ends in such a history, also
  when an exception ends it; it returns its alerts when no observation raises.
\<close>

theorem stored_prices_positive:
  "(fst (parse_price dec s) = Some 0 \<longrightarrow>
      scrape_price dec p (Text s) now = Inr None \<and>
      check_product key_of dec (p, Text s, now) (alerts, h0) = (Inr alerts, h0)) \<and>
   (scrape_price dec p obs now = Inr (Some r) \<longrightarrow> 0 < price r) \<and>
   ((\<forall>k. list_all (\<lambda>r. 0 < price r) (records_at h k)) \<longrightarrow>
      (\<forall>k. list_all (\<lambda>r. 0 < price r) (records_at (snd (check_all key_of dec ws h)) k)) \<and>
      (list_all does_not_raise ws \<longrightarrow>
         (\<exists>alerts. fst (check_all key_of dec ws h) = Inr alerts)))"
proof (intro conjI impI)
  assume z: "fst (parse_price dec s) = Some 0"
  show "scrape_price dec p (Text s) now = Inr None" using z by (rule scrape_price_zero)
  then show "check_product key_of dec (p, Text s, now) (alerts, h0) = (Inr alerts, h0)"
    by (rule check_product_skip)
next
  assume "scrape_price dec p obs now = Inr (Some r)"
  then show "0 < price r" by (rule scrape_price_positive)
next
  assume pos: "\<forall>k. list_all (\<lambda>r. 0 < price r) (records_at h k)"
  show "\<forall>k. list_all (\<lambda>r. 0 < price r) (records_at (snd (check_all key_of dec ws h)) k)"
    using positive_store pos
    by (rule check_all_invariant
        [where I = "\<lambda>h. \<forall>k. list_all (\<lambda>r. 0 < price r) (records_at h k)"])
next
  assume "list_all does_not_raise ws"
  then show "\<exists>alerts. fst (check_all key_of dec ws h) = Inr alerts"
    by (rule check_all_returns)
qed

theorem stored_prices_positive_witness:
  "scrape_price ascii_decimal sample_product (Text (ustr_of ''$0.00'')) ''t0'' = Inr None \<and>
   check_product sample_key ascii_decimal (sample_product, Text (ustr_of ''$0.00''), ''t0'')
     ([], Map.empty) = (Inr [], Map.empty) \<and>
   0 < price (sample_record (2999 / 100) ''t0'') \<and>
   (\<forall>k. list_all (\<lambda>r. 0 < price r)
      (records_at (snd (check_all sample_key ascii_decimal sample_cycle Map.empty)) k)) \<and>
   (\<exists>alerts. fst (check_all sample_key ascii_decimal sample_cycle Map.empty) = Inr alerts)"
proof -
  have a: "fst (parse_price ascii_decimal (ustr_of ''$0.00'')) = Some 0"
    by (simp add: parser_defs)
  have b: "\<forall>k. list_all (\<lambda>r. 0 < price r) (records_at Map.empty k)"
    by (simp add: records_at_def)
  show ?thesis
    using stored_prices_positive [of ascii_decimal "ustr_of ''$0.00''" sample_product "''t0''"
        sample_key "[]" Map.empty "Text (ustr_of ''$29.99'')" "sample_record (2999 / 100) ''t0''"
        Map.empty sample_cycle]
      a b scrape_sample_2999 [of "''t0''"] sample_cycle_does_not_raise
    by blast
qed

end
